theory Spec2Isabelle
  imports Complex_Main
begin

section \<open>Python strings\<close>

text \<open>
  A Python \<open>str\<close> is modelled as a \<open>string\<close>, read as the UTF-8 bytes of the text.
  \<open>str.lower\<close> maps the ASCII capitals to small letters and leaves every other byte
  alone; \<open>str.strip\<close> removes the ASCII white space Python's \<open>str.isspace\<close> accepts.
\<close>

definition lower_char :: "char \<Rightarrow> char" where
  "lower_char c =
     (case map_of (zip ''ABCDEFGHIJKLMNOPQRSTUVWXYZ'' ''abcdefghijklmnopqrstuvwxyz'') c of
        Some l \<Rightarrow> l
      | None \<Rightarrow> c)"

definition lower :: "string \<Rightarrow> string" where
  "lower s = map lower_char s"

definition startswith :: "'a list \<Rightarrow> 'a list \<Rightarrow> bool" where
  "startswith s p = (take (length p) s = p)"

definition endswith :: "string \<Rightarrow> string \<Rightarrow> bool" where
  "endswith s p = (length p \<le> length s \<and> drop (length s - length p) s = p)"

definition isspace :: "char \<Rightarrow> bool" where
  "isspace c = (let n = (of_char c :: nat) in (9 \<le> n \<and> n \<le> 13) \<or> (28 \<le> n \<and> n \<le> 32))"

definition strip :: "string \<Rightarrow> string" where
  "strip s = rev (dropWhile isspace (rev (dropWhile isspace s)))"

fun split_on :: "char \<Rightarrow> string \<Rightarrow> string list" where
  "split_on c [] = [[]]"
| "split_on c (x # xs) =
     (if x = c then [] # split_on c xs
      else (case split_on c xs of [] \<Rightarrow> [[x]] | p # ps \<Rightarrow> (x # p) # ps))"

text \<open>\<open>needle in hay\<close> on two strings.\<close>

fun is_substring :: "string \<Rightarrow> string \<Rightarrow> bool" where
  "is_substring needle [] = (needle = [])"
| "is_substring needle (h # hs) = (startswith (h # hs) needle \<or> is_substring needle hs)"

text \<open>The order of \<open>str\<close>: lexicographic on code points, which is the lexicographic
  order of the UTF-8 bytes.\<close>

fun str_lt :: "string \<Rightarrow> string \<Rightarrow> bool" where
  "str_lt [] [] = False"
| "str_lt [] (y # ys) = True"
| "str_lt (x # xs) [] = False"
| "str_lt (x # xs) (y # ys) =
     (if (of_char x :: nat) < of_char y then True
      else if (of_char y :: nat) < of_char x then False
      else str_lt xs ys)"

text \<open>\<open>int(s)\<close> on a string: white space is stripped, a sign may lead, and the rest is
  decimal digits, where single underscores may separate digits. \<open>None\<close> stands for
  \<open>ValueError\<close>.\<close>

definition is_digit :: "char \<Rightarrow> bool" where
  "is_digit c = (48 \<le> (of_char c :: nat) \<and> (of_char c :: nat) \<le> 57)"

fun digits_ok :: "string \<Rightarrow> bool" where
  "digits_ok [] = False"
| "digits_ok [c] = is_digit c"
| "digits_ok (c # d # cs) =
     (if is_digit c then digits_ok (d # cs)
      else c = CHR ''_'' \<and> is_digit d \<and> digits_ok (d # cs))"

definition digits_value :: "string \<Rightarrow> int" where
  "digits_value s = foldl (\<lambda>acc c. 10 * acc + (int (of_char c) - 48)) 0 (filter is_digit s)"

definition py_int :: "string \<Rightarrow> int option" where
  "py_int s =
     (let t = strip s;
          (sign, ds) = (case t of
                          [] \<Rightarrow> (1, [])
                        | c # cs \<Rightarrow> if c = CHR ''-'' then (- 1, cs)
                                    else if c = CHR ''+'' then (1, cs) else (1, t))
      in if ds \<noteq> [] \<and> is_digit (hd ds) \<and> digits_ok ds then Some (sign * digits_value ds)
         else None)"

section \<open>Python values\<close>

text \<open>
  The values of a decoded JSON document. A \<open>float\<close> is given by its exact rational
  value (every finite double is one; NaN and the infinities are not JSON). A \<open>dict\<close> is
  an association list in insertion order with distinct keys.
\<close>

datatype json =
    JNull
  | JBool bool
  | JInt int
  | JFloat rat
  | JStr string
  | JList "json list"
  | JDict "(string \<times> json) list"

datatype py_error =
    TypeError | AttributeError | ValueError | JSONDecodeError | UnicodeEncodeError
  | LibraryError string

text \<open>Truth value testing (\<open>if x\<close>, \<open>not x\<close>, \<open>x or y\<close>).\<close>

fun py_truthy :: "json \<Rightarrow> bool" where
  "py_truthy JNull = False"
| "py_truthy (JBool b) = b"
| "py_truthy (JInt i) = (i \<noteq> 0)"
| "py_truthy (JFloat r) = (r \<noteq> 0)"
| "py_truthy (JStr s) = (s \<noteq> [])"
| "py_truthy (JList xs) = (xs \<noteq> [])"
| "py_truthy (JDict kvs) = (kvs \<noteq> [])"

text \<open>\<open>bool\<close>, \<open>int\<close> and \<open>float\<close> are the numbers; \<open>True\<close> is 1 and \<open>False\<close> is 0.\<close>

fun num_of :: "json \<Rightarrow> rat option" where
  "num_of (JBool b) = Some (if b then 1 else 0)"
| "num_of (JInt i) = Some (of_int i)"
| "num_of (JFloat r) = Some r"
| "num_of _ = None"

text \<open>\<open>d.get(k)\<close> and \<open>k in d\<close> on a dict.\<close>

definition dict_get :: "(string \<times> json) list \<Rightarrow> string \<Rightarrow> json option" where
  "dict_get d k = map_of d k"

definition dict_has :: "(string \<times> json) list \<Rightarrow> string \<Rightarrow> bool" where
  "dict_has d k = (map_of d k \<noteq> None)"

text \<open>\<open>a == b\<close>: numbers compare by value across \<open>bool\<close>, \<open>int\<close> and \<open>float\<close>, lists
  element by element, dicts key by key whatever the order; values of different kinds are
  unequal.\<close>

fun py_eq :: "json \<Rightarrow> json \<Rightarrow> bool"
  and py_eq_list :: "json list \<Rightarrow> json list \<Rightarrow> bool"
  and py_eq_dict :: "(string \<times> json) list \<Rightarrow> (string \<times> json) list \<Rightarrow> bool" where
  "py_eq JNull b = (b = JNull)"
| "py_eq (JBool x) b = (num_of b = Some (if x then 1 else 0))"
| "py_eq (JInt x) b = (num_of b = Some (of_int x))"
| "py_eq (JFloat x) b = (num_of b = Some x)"
| "py_eq (JStr x) b = (b = JStr x)"
| "py_eq (JList xs) b = (case b of JList ys \<Rightarrow> py_eq_list xs ys | _ \<Rightarrow> False)"
| "py_eq (JDict kvs) b =
     (case b of JDict kws \<Rightarrow> length kvs = length kws \<and> py_eq_dict kvs kws | _ \<Rightarrow> False)"
| "py_eq_list [] ys = (ys = [])"
| "py_eq_list (x # xs) ys =
     (case ys of [] \<Rightarrow> False | y # ys' \<Rightarrow> py_eq x y \<and> py_eq_list xs ys')"
| "py_eq_dict [] kws = True"
| "py_eq_dict ((k, v) # kvs) kws =
     (case map_of kws k of None \<Rightarrow> False | Some w \<Rightarrow> py_eq v w \<and> py_eq_dict kvs kws)"

datatype cmp_op = Lt | Le | Gt | Ge

fun cmp_rat :: "cmp_op \<Rightarrow> rat \<Rightarrow> rat \<Rightarrow> bool" where
  "cmp_rat Lt a b = (a < b)"
| "cmp_rat Le a b = (a \<le> b)"
| "cmp_rat Gt a b = (b < a)"
| "cmp_rat Ge a b = (b \<le> a)"

fun cmp_str :: "cmp_op \<Rightarrow> string \<Rightarrow> string \<Rightarrow> bool" where
  "cmp_str Lt a b = str_lt a b"
| "cmp_str Le a b = (\<not> str_lt b a)"
| "cmp_str Gt a b = str_lt b a"
| "cmp_str Ge a b = (\<not> str_lt a b)"

fun cmp_len :: "cmp_op \<Rightarrow> nat \<Rightarrow> nat \<Rightarrow> bool" where
  "cmp_len Lt a b = (a < b)"
| "cmp_len Le a b = (a \<le> b)"
| "cmp_len Gt a b = (b < a)"
| "cmp_len Ge a b = (b \<le> a)"

text \<open>\<open>a < b\<close>, \<open>a <= b\<close>, \<open>a > b\<close>, \<open>a >= b\<close>: numbers with numbers, strings with
  strings, lists with lists (decided at the first pair of unequal elements, else by
  length); every other pairing raises \<open>TypeError\<close>.\<close>

fun py_cmp :: "cmp_op \<Rightarrow> json \<Rightarrow> json \<Rightarrow> py_error + bool"
  and py_cmp_list :: "cmp_op \<Rightarrow> json list \<Rightarrow> json list \<Rightarrow> py_error + bool" where
  "py_cmp oper (JStr a) b = (case b of JStr c \<Rightarrow> Inr (cmp_str oper a c) | _ \<Rightarrow> Inl TypeError)"
| "py_cmp oper (JList xs) b = (case b of JList ys \<Rightarrow> py_cmp_list oper xs ys | _ \<Rightarrow> Inl TypeError)"
| "py_cmp oper JNull b = Inl TypeError"
| "py_cmp oper (JDict kvs) b = Inl TypeError"
| "py_cmp oper (JBool x) b =
     (case num_of b of Some n \<Rightarrow> Inr (cmp_rat oper (if x then 1 else 0) n) | None \<Rightarrow> Inl TypeError)"
| "py_cmp oper (JInt x) b =
     (case num_of b of Some n \<Rightarrow> Inr (cmp_rat oper (of_int x) n) | None \<Rightarrow> Inl TypeError)"
| "py_cmp oper (JFloat x) b =
     (case num_of b of Some n \<Rightarrow> Inr (cmp_rat oper x n) | None \<Rightarrow> Inl TypeError)"
| "py_cmp_list oper [] ys = Inr (cmp_len oper 0 (length ys))"
| "py_cmp_list oper (x # xs) [] = Inr (cmp_len oper (Suc (length xs)) 0)"
| "py_cmp_list oper (x # xs) (y # ys) =
     (if py_eq x y then py_cmp_list oper xs ys else py_cmp oper x y)"

section \<open>rules/context.py\<close>

record token_usage =
  input_tokens :: int
  output_tokens :: int

definition total_tokens :: "token_usage \<Rightarrow> int" where
  "total_tokens u = input_tokens u + output_tokens u"

text \<open>\<open>current_model\<close> holds whatever the request body gives as \<open>model\<close>; the
  dataclass declares it a \<open>str\<close> without checking.\<close>

record rule_context =
  current_model :: json
  headers :: "(string \<times> string) list"
  request_body :: "(string \<times> json) list"
  usage :: token_usage

text \<open>What \<open>get_value\<close> returns: a JSON value (\<open>None\<close> is \<open>JNull\<close>) or the
  \<open>TokenUsage\<close> object itself.\<close>

datatype pyval = Val json | Usage token_usage

fun get_nested_value :: "json \<Rightarrow> string list \<Rightarrow> json" where
  "get_nested_value obj [] = obj"
| "get_nested_value obj (current # remaining) =
     (if CHR ''['' \<in> set current \<and> endswith current '']'' then
        (let key = takeWhile (\<lambda>c. c \<noteq> CHR ''['') current;
             index_str = butlast (drop (Suc (length key)) current)
         in case py_int index_str of
              None \<Rightarrow> JNull
            | Some index \<Rightarrow>
                (case obj of
                   JDict d \<Rightarrow>
                     (case map_of d key of
                        Some (JList arr) \<Rightarrow>
                          if 0 \<le> index \<and> index < int (length arr)
                          then get_nested_value (arr ! nat index) remaining
                          else JNull
                      | _ \<Rightarrow> JNull)
                 | _ \<Rightarrow> JNull))
      else
        (case obj of
           JDict d \<Rightarrow>
             (case map_of d current of
                Some v \<Rightarrow> get_nested_value v remaining
              | None \<Rightarrow> JNull)
         | _ \<Rightarrow> JNull))"

definition get_token_usage_value :: "rule_context \<Rightarrow> string list \<Rightarrow> pyval" where
  "get_token_usage_value ctx path =
     (case path of
        [] \<Rightarrow> Usage (usage ctx)
      | field_name # _ \<Rightarrow>
          if field_name = ''input_tokens'' then Val (JInt (input_tokens (usage ctx)))
          else if field_name = ''output_tokens'' then Val (JInt (output_tokens (usage ctx)))
          else if field_name = ''total_tokens'' then Val (JInt (total_tokens (usage ctx)))
          else Val JNull)"

definition get_value :: "rule_context \<Rightarrow> string \<Rightarrow> pyval" where
  "get_value ctx field_path =
     (if field_path = [] then Val JNull
      else
        let parts = split_on CHR ''.'' field_path;
            root = lower (hd parts)
        in if root = ''model'' then Val (current_model ctx)
           else if root = ''headers'' then
             Val (get_nested_value (JDict (map (\<lambda>(k, v). (k, JStr v)) (headers ctx))) (tl parts))
           else if root = ''body'' then
             Val (get_nested_value (JDict (request_body ctx)) (tl parts))
           else if root = ''token_usage'' then get_token_usage_value ctx (tl parts)
           else Val JNull)"

section \<open>rules/evaluator.py\<close>

record rule =
  field :: string
  operator :: string
  expected_value :: json

record rule_set =
  rules :: "rule list"
  logic :: string

text \<open>Modelled from the spec: \<open>RuleSet.is_empty\<close> of \<open>rules/models.py\<close>, which is not
  among the sources; an empty rule set is one whose \<open>rules\<close> list is empty.\<close>

definition is_empty :: "rule_set \<Rightarrow> bool" where
  "is_empty rs = (rules rs = [])"

text \<open>The standard library the evaluator calls: \<open>re.compile(p).search(s)\<close>, where
  \<open>None\<close> is \<open>re.error\<close>, and \<open>str(v)\<close> of a value that is not a string.\<close>

record pylib =
  re_search :: "string \<Rightarrow> string \<Rightarrow> bool option"
  str_of :: "json \<Rightarrow> string"

definition py_str :: "pylib \<Rightarrow> json \<Rightarrow> string" where
  "py_str L v = (case v of JStr s \<Rightarrow> s | _ \<Rightarrow> str_of L v)"

definition evaluate_eq :: "pyval \<Rightarrow> json \<Rightarrow> bool" where
  "evaluate_eq actual expected = (case actual of Val a \<Rightarrow> py_eq a expected | Usage _ \<Rightarrow> False)"

definition evaluate_ne :: "pyval \<Rightarrow> json \<Rightarrow> bool" where
  "evaluate_ne actual expected = (case actual of Val a \<Rightarrow> \<not> py_eq a expected | Usage _ \<Rightarrow> True)"

definition compare :: "cmp_op \<Rightarrow> pyval \<Rightarrow> json \<Rightarrow> py_error + bool" where
  "compare oper actual expected =
     (case actual of Val a \<Rightarrow> py_cmp oper a expected | Usage _ \<Rightarrow> Inl TypeError)"

definition evaluate_gt :: "pyval \<Rightarrow> json \<Rightarrow> py_error + bool" where
  "evaluate_gt actual expected =
     (if actual = Val JNull then Inr False else compare Gt actual expected)"

definition evaluate_gte :: "pyval \<Rightarrow> json \<Rightarrow> py_error + bool" where
  "evaluate_gte actual expected =
     (if actual = Val JNull then Inr False else compare Ge actual expected)"

definition evaluate_lt :: "pyval \<Rightarrow> json \<Rightarrow> py_error + bool" where
  "evaluate_lt actual expected =
     (if actual = Val JNull then Inr False else compare Lt actual expected)"

definition evaluate_lte :: "pyval \<Rightarrow> json \<Rightarrow> py_error + bool" where
  "evaluate_lte actual expected =
     (if actual = Val JNull then Inr False else compare Le actual expected)"

definition evaluate_contains :: "pylib \<Rightarrow> pyval \<Rightarrow> json \<Rightarrow> bool" where
  "evaluate_contains L actual expected =
     (case actual of
        Val (JStr a) \<Rightarrow> is_substring (py_str L expected) a
      | _ \<Rightarrow> False)"

definition evaluate_not_contains :: "pylib \<Rightarrow> pyval \<Rightarrow> json \<Rightarrow> bool" where
  "evaluate_not_contains L actual expected =
     (case actual of
        Val (JStr a) \<Rightarrow> \<not> is_substring (py_str L expected) a
      | _ \<Rightarrow> True)"

definition evaluate_regex :: "pylib \<Rightarrow> pyval \<Rightarrow> json \<Rightarrow> bool" where
  "evaluate_regex L actual expected =
     (case actual of
        Val (JStr a) \<Rightarrow>
          (case re_search L (py_str L expected) a of Some found \<Rightarrow> found | None \<Rightarrow> False)
      | _ \<Rightarrow> False)"

definition evaluate_in :: "pyval \<Rightarrow> json \<Rightarrow> bool" where
  "evaluate_in actual expected =
     (case expected of
        JList xs \<Rightarrow> list_ex (\<lambda>x. evaluate_eq actual x) xs
      | _ \<Rightarrow> False)"

definition evaluate_not_in :: "pyval \<Rightarrow> json \<Rightarrow> bool" where
  "evaluate_not_in actual expected =
     (case expected of
        JList xs \<Rightarrow> \<not> list_ex (\<lambda>x. evaluate_eq actual x) xs
      | _ \<Rightarrow> True)"

definition evaluate_exists :: "pyval \<Rightarrow> json \<Rightarrow> bool" where
  "evaluate_exists actual expected =
     (let exists = (actual \<noteq> Val JNull)
      in if py_truthy expected then exists else \<not> exists)"

text \<open>The operator dispatch inside the \<open>try\<close> block of \<open>evaluate_rule\<close>.\<close>

definition apply_operator :: "pylib \<Rightarrow> string \<Rightarrow> pyval \<Rightarrow> json \<Rightarrow> py_error + bool" where
  "apply_operator L oper actual_value expected =
     (if oper = ''eq'' then Inr (evaluate_eq actual_value expected)
      else if oper = ''ne'' then Inr (evaluate_ne actual_value expected)
      else if oper = ''gt'' then evaluate_gt actual_value expected
      else if oper = ''gte'' then evaluate_gte actual_value expected
      else if oper = ''lt'' then evaluate_lt actual_value expected
      else if oper = ''lte'' then evaluate_lte actual_value expected
      else if oper = ''contains'' then Inr (evaluate_contains L actual_value expected)
      else if oper = ''not_contains'' then Inr (evaluate_not_contains L actual_value expected)
      else if oper = ''regex'' then Inr (evaluate_regex L actual_value expected)
      else if oper = ''in'' then Inr (evaluate_in actual_value expected)
      else if oper = ''not_in'' then Inr (evaluate_not_in actual_value expected)
      else if oper = ''exists'' then Inr (evaluate_exists actual_value expected)
      else Inr False)"

text \<open>\<open>except Exception: return False\<close>.\<close>

definition evaluate_rule :: "pylib \<Rightarrow> rule \<Rightarrow> rule_context \<Rightarrow> bool" where
  "evaluate_rule L r ctx =
     (let actual_value = get_value ctx (field r);
          expected = expected_value r;
          oper = lower (operator r)
      in case apply_operator L oper actual_value expected of
           Inl _ \<Rightarrow> False
         | Inr b \<Rightarrow> b)"

definition evaluate_ruleset :: "pylib \<Rightarrow> rule_set option \<Rightarrow> rule_context \<Rightarrow> bool" where
  "evaluate_ruleset L ruleset ctx =
     (case ruleset of
        None \<Rightarrow> True
      | Some rs \<Rightarrow>
          if is_empty rs then True
          else
            let results = map (\<lambda>r. evaluate_rule L r ctx) (rules rs)
            in if logic rs = ''OR'' then list_ex id results else list_all id results)"

subsection \<open>Path resolution as the specification words it\<close>

text \<open>
  Following the spec's words, a path either resolves to a present value (\<open>Some\<close>, which
  may be a present null) or is absent (\<open>None\<close>). These two functions walk a path
  exactly as \<open>get_nested_value\<close> and \<open>get_value\<close> do, but keep the two outcomes apart;
  \<open>absent_as_none\<close> maps the absent outcome to Python's \<open>None\<close>.
\<close>

fun spec_resolve_nested :: "json \<Rightarrow> string list \<Rightarrow> json option" where
  "spec_resolve_nested obj [] = Some obj"
| "spec_resolve_nested obj (current # remaining) =
     (if CHR ''['' \<in> set current \<and> endswith current '']'' then
        (let key = takeWhile (\<lambda>c. c \<noteq> CHR ''['') current;
             index_str = butlast (drop (Suc (length key)) current)
         in case py_int index_str of
              None \<Rightarrow> None
            | Some index \<Rightarrow>
                (case obj of
                   JDict d \<Rightarrow>
                     (case map_of d key of
                        Some (JList arr) \<Rightarrow>
                          if 0 \<le> index \<and> index < int (length arr)
                          then spec_resolve_nested (arr ! nat index) remaining
                          else None
                      | _ \<Rightarrow> None)
                 | _ \<Rightarrow> None))
      else
        (case obj of
           JDict d \<Rightarrow>
             (case map_of d current of
                Some v \<Rightarrow> spec_resolve_nested v remaining
              | None \<Rightarrow> None)
         | _ \<Rightarrow> None))"

definition spec_resolve :: "rule_context \<Rightarrow> string \<Rightarrow> pyval option" where
  "spec_resolve ctx field_path =
     (if field_path = [] then None
      else
        let parts = split_on CHR ''.'' field_path;
            root = lower (hd parts)
        in if root = ''model'' then Some (Val (current_model ctx))
           else if root = ''headers'' then
             map_option Val
               (spec_resolve_nested (JDict (map (\<lambda>(k, v). (k, JStr v)) (headers ctx))) (tl parts))
           else if root = ''body'' then
             map_option Val (spec_resolve_nested (JDict (request_body ctx)) (tl parts))
           else if root = ''token_usage'' then
             (case tl parts of
                [] \<Rightarrow> Some (Usage (usage ctx))
              | field_name # _ \<Rightarrow>
                  if field_name = ''input_tokens'' then Some (Val (JInt (input_tokens (usage ctx))))
                  else if field_name = ''output_tokens'' then Some (Val (JInt (output_tokens (usage ctx))))
                  else if field_name = ''total_tokens'' then Some (Val (JInt (total_tokens (usage ctx))))
                  else None)
           else None)"

definition absent_as_none :: "pyval option \<Rightarrow> pyval" where
  "absent_as_none r = (case r of None \<Rightarrow> Val JNull | Some v \<Rightarrow> v)"

subsection \<open>Library and context instances for concrete runs\<close>

text \<open>A library instance for runs whose patterns are literal text and which take
  \<open>str\<close> of strings only.\<close>

definition literal_lib :: pylib where
  "literal_lib = \<lparr>re_search = (\<lambda>p s. Some (is_substring p s)), str_of = (\<lambda>v. [])\<rparr>"

definition example_context :: rule_context where
  "example_context =
     \<lparr>current_model = JStr ''gpt-4'',
      headers = [(''x-priority'', ''high'')],
      request_body = [(''temperature'', JFloat (7 / 10)), (''stop'', JNull)],
      usage = \<lparr>input_tokens = 500, output_tokens = 0\<rparr>\<rparr>"

section \<open>Candidates and provider responses\<close>

text \<open>\<open>CandidateProvider\<close> (\<open>rules/models.py\<close>) with the fields the unit tests and
  the spec give it.\<close>

record candidate_provider =
  provider_id :: int
  provider_name :: string
  base_url :: string
  protocol :: string
  api_key :: string
  target_model :: string
  priority :: int
  weight :: int

record provider_response =
  status_code :: int
  body :: json
  error :: "string option"
  first_byte_delay_ms :: "int option"
  total_time_ms :: "int option"

text \<open>Modelled from the spec: the two status classes of \<open>ProviderResponse\<close>
  (\<open>providers/base.py\<close> is not among the sources). A response is a success on a 2xx
  or 3xx status and a server error on a status of 500 or more, the threshold the
  docstring of \<open>RetryHandler\<close> names.\<close>

definition is_success :: "provider_response \<Rightarrow> bool" where
  "is_success r = (200 \<le> status_code r \<and> status_code r < 400)"

definition is_server_error :: "provider_response \<Rightarrow> bool" where
  "is_server_error r = (500 \<le> status_code r)"

definition error_response :: "int \<Rightarrow> string \<Rightarrow> provider_response" where
  "error_response code msg =
     \<lparr>status_code = code, body = JNull, error = Some msg,
      first_byte_delay_ms = None, total_time_ms = None\<rparr>"

section \<open>services/retry_handler.py\<close>

record retry_result =
  response :: provider_response
  retry_count :: int
  final_provider :: "candidate_provider option"
  success :: bool

text \<open>What a run does besides returning: the calls of the forward function with the
  response each produced, and the pauses \<open>asyncio.sleep(retry_delay_ms / 1000)\<close>, in
  order. The forward function is any function of a state of its own, so that it may
  answer differently from call to call.\<close>

datatype event = Forward candidate_provider provider_response | Sleep int

fun responses_of :: "event list \<Rightarrow> provider_response list" where
  "responses_of [] = []"
| "responses_of (Forward c r # es) = r # responses_of es"
| "responses_of (Sleep d # es) = responses_of es"

text \<open>The candidates called, in order.\<close>

fun calls_of :: "event list \<Rightarrow> candidate_provider list" where
  "calls_of [] = []"
| "calls_of (Forward c r # es) = c # calls_of es"
| "calls_of (Sleep d # es) = calls_of es"

text \<open>
  \<open>trace_of forward_fn s evs s'\<close>: the events are a run of the forward function from
  state \<open>s\<close> to state \<open>s'\<close>. Every \<open>Forward c r\<close> is a call of \<open>forward_fn\<close> on \<open>c\<close> in
  the state the calls before it left, and \<open>r\<close> is the response that call returned.
\<close>

fun trace_of ::
  "('s \<Rightarrow> candidate_provider \<Rightarrow> provider_response \<times> 's) \<Rightarrow> 's \<Rightarrow> event list \<Rightarrow> 's \<Rightarrow> bool" where
  "trace_of forward_fn s [] s' = (s' = s)"
| "trace_of forward_fn s (Forward c r # es) s' =
     (fst (forward_fn s c) = r \<and> trace_of forward_fn (snd (forward_fn s c)) es s')"
| "trace_of forward_fn s (Sleep d # es) s' = trace_of forward_fn s es s'"

text \<open>The handler's fields: the selection strategy (\<open>services/strategy.py\<close> is not
  among the sources; its \<open>select\<close> is a parameter) and the two settings
  \<open>RETRY_MAX_ATTEMPTS\<close> and \<open>RETRY_DELAY_MS\<close>. The requested model is the truthy
  value the request body gives as \<open>model\<close>.\<close>

record retry_handler =
  strategy_select :: "candidate_provider list \<Rightarrow> json \<Rightarrow> candidate_provider option"
  max_retries :: int
  retry_delay_ms :: int

text \<open>The inner \<open>while\<close> loop either returns from the function (\<open>Done\<close>) or
  is left, by \<open>break\<close> or by its condition, with the retry count and the last
  response (\<open>Switch\<close>).\<close>

datatype attempt_outcome = Done retry_result | Switch int "provider_response option"

function same_provider_loop ::
  "retry_handler \<Rightarrow> ('s \<Rightarrow> candidate_provider \<Rightarrow> provider_response \<times> 's) \<Rightarrow> candidate_provider \<Rightarrow>
   int \<Rightarrow> int \<Rightarrow> provider_response option \<Rightarrow> 's \<Rightarrow> attempt_outcome \<times> 's \<times> event list" where
  "same_provider_loop h forward_fn current_provider same_provider_retries total_retry_count
     last_response s =
     (if same_provider_retries < max_retries h then
        (case forward_fn s current_provider of
           (resp, s') \<Rightarrow>
             if is_success resp then
               (Done \<lparr>response = resp, retry_count = total_retry_count,
                      final_provider = Some current_provider, success = True\<rparr>,
                s', [Forward current_provider resp])
             else if is_server_error resp then
               (if same_provider_retries + 1 < max_retries h then
                  (case same_provider_loop h forward_fn current_provider
                          (same_provider_retries + 1) (total_retry_count + 1) (Some resp) s' of
                     (out, s'', evs) \<Rightarrow>
                       (out, s'', Forward current_provider resp # Sleep (retry_delay_ms h) # evs))
                else (Switch (total_retry_count + 1) (Some resp), s',
                      [Forward current_provider resp]))
             else (Switch (total_retry_count + 1) (Some resp), s',
                   [Forward current_provider resp]))
      else (Switch total_retry_count last_response, s, []))"
  by pat_completeness auto
termination
  by (relation "measure (\<lambda>(h, f, c, same, t, l, s). nat (max_retries h - same))") auto

declare same_provider_loop.simps [simp del]

definition get_next_untried_provider ::
  "candidate_provider list \<Rightarrow> int set \<Rightarrow> candidate_provider option" where
  "get_next_untried_provider candidates tried_providers =
     find (\<lambda>candidate. provider_id candidate \<notin> tried_providers) candidates"

function provider_loop ::
  "retry_handler \<Rightarrow> candidate_provider list \<Rightarrow>
   ('s \<Rightarrow> candidate_provider \<Rightarrow> provider_response \<times> 's) \<Rightarrow> candidate_provider \<Rightarrow>
   int set \<Rightarrow> int \<Rightarrow> provider_response option \<Rightarrow> 's \<Rightarrow> retry_result \<times> 's \<times> event list" where
  "provider_loop h candidates forward_fn current_provider tried_providers total_retry_count
     last_response s =
     (let tried = insert (provider_id current_provider) tried_providers in
      case same_provider_loop h forward_fn current_provider 0 total_retry_count last_response s of
        (Done result, s', evs) \<Rightarrow> (result, s', evs)
      | (Switch count lastr, s', evs) \<Rightarrow>
          (case get_next_untried_provider candidates tried of
             None \<Rightarrow>
               (\<lparr>response = (case lastr of Some r \<Rightarrow> r
                               | None \<Rightarrow> error_response 503 ''All providers failed''),
                 retry_count = count, final_provider = Some current_provider, success = False\<rparr>,
                s', evs)
           | Some next_provider \<Rightarrow>
               (case provider_loop h candidates forward_fn next_provider tried count lastr s' of
                  (result, s'', evs') \<Rightarrow> (result, s'', evs @ evs'))))"
  by pat_completeness auto
termination
proof (relation "measure (\<lambda>(h, cs, f, c, tried, t, l, s).
          card (provider_id ` set cs - insert (provider_id c) tried))", goal_cases)
  case 1
  show ?case by simp
next
  case prems: 2
  have decreases: "card (provider_id ` set cs - insert (provider_id n) tr)
                     < card (provider_id ` set cs - tr)"
    if "get_next_untried_provider cs tr = Some n" for cs tr n
  proof -
    from that have "n \<in> set cs" "provider_id n \<notin> tr"
      unfolding get_next_untried_provider_def find_Some_iff by auto
    then have "provider_id ` set cs - insert (provider_id n) tr \<subset> provider_id ` set cs - tr"
      by auto
    then show ?thesis
      by (intro psubset_card_mono) auto
  qed
  from prems show ?case by (simp add: decreases)
qed

declare provider_loop.simps [simp del]

definition execute_with_retry ::
  "retry_handler \<Rightarrow> candidate_provider list \<Rightarrow> json \<Rightarrow>
   ('s \<Rightarrow> candidate_provider \<Rightarrow> provider_response \<times> 's) \<Rightarrow> 's \<Rightarrow> retry_result \<times> 's \<times> event list" where
  "execute_with_retry h candidates requested_model forward_fn s =
     (if candidates = [] then
        (\<lparr>response = error_response 503 ''No available providers'', retry_count = 0,
          final_provider = None, success = False\<rparr>, s, [])
      else
        case strategy_select h candidates requested_model of
          None \<Rightarrow>
            (\<lparr>response = error_response 503 ''All providers failed'', retry_count = 0,
              final_provider = None, success = False\<rparr>, s, [])
        | Some current_provider \<Rightarrow>
            provider_loop h candidates forward_fn current_provider {} 0 None s)"

subsection \<open>Instances for concrete runs\<close>

text \<open>A strategy that selects the head of the list, the handler of the unit tests with
  the default settings, and the two candidates of the unit tests.\<close>

definition first_candidate_strategy ::
  "candidate_provider list \<Rightarrow> json \<Rightarrow> candidate_provider option" where
  "first_candidate_strategy candidates requested_model =
     (case candidates of [] \<Rightarrow> None | c # _ \<Rightarrow> Some c)"

definition example_handler :: retry_handler where
  "example_handler =
     \<lparr>strategy_select = first_candidate_strategy, max_retries = 3, retry_delay_ms = 1000\<rparr>"

text \<open>A handler configured with no attempt at all.\<close>

definition zero_attempts_handler :: retry_handler where
  "zero_attempts_handler =
     \<lparr>strategy_select = first_candidate_strategy, max_retries = 0, retry_delay_ms = 1000\<rparr>"

definition provider_one :: candidate_provider where
  "provider_one =
     \<lparr>provider_id = 1, provider_name = ''Provider1'', base_url = ''https://api1.com'',
      protocol = ''openai'', api_key = ''key1'', target_model = ''model1'', priority = 1,
      weight = 1\<rparr>"

definition provider_two :: candidate_provider where
  "provider_two =
     \<lparr>provider_id = 2, provider_name = ''Provider2'', base_url = ''https://api2.com'',
      protocol = ''openai'', api_key = ''key2'', target_model = ''model2'', priority = 2,
      weight = 1\<rparr>"


text \<open>Forward functions of the unit tests; the state counts the calls.\<close>

definition always_500 :: "nat \<Rightarrow> candidate_provider \<Rightarrow> provider_response \<times> nat" where
  "always_500 n c = (error_response 500 ''Server error'', Suc n)"


section \<open>json.dumps\<close>

text \<open>\<open>json.dumps(obj, ensure_ascii=False)\<close> with the default separators. The text of a
  \<open>float\<close> is \<open>float.__repr__\<close>, a parameter.\<close>

definition hex_digit :: "nat \<Rightarrow> char" where
  "hex_digit n = ''0123456789abcdef'' ! n"

definition escape_char :: "char \<Rightarrow> string" where
  "escape_char c =
     (let n = (of_char c :: nat) in
      if n = 34 then [CHR 0x5C, CHR 0x22]
      else if n = 92 then [CHR 0x5C, CHR 0x5C]
      else if n = 10 then [CHR 0x5C, CHR ''n'']
      else if n = 13 then [CHR 0x5C, CHR ''r'']
      else if n = 9 then [CHR 0x5C, CHR ''t'']
      else if n = 8 then [CHR 0x5C, CHR ''b'']
      else if n = 12 then [CHR 0x5C, CHR ''f'']
      else if n < 32 then [CHR 0x5C] @ ''u00'' @ [hex_digit (n div 16), hex_digit (n mod 16)]
      else [c])"

definition encode_basestring :: "string \<Rightarrow> string" where
  "encode_basestring s = [CHR 0x22] @ concat (map escape_char s) @ [CHR 0x22]"

fun string_of_nat :: "nat \<Rightarrow> string" where
  "string_of_nat n =
     (if n < 10 then [hex_digit n]
      else string_of_nat (n div 10) @ [hex_digit (n mod 10)])"

declare string_of_nat.simps [simp del]

definition string_of_int :: "int \<Rightarrow> string" where
  "string_of_int i = (if i < 0 then CHR ''-'' # string_of_nat (nat (- i)) else string_of_nat (nat i))"

fun join :: "string \<Rightarrow> string list \<Rightarrow> string" where
  "join sep [] = []"
| "join sep [x] = x"
| "join sep (x # y # ys) = x @ sep @ join sep (y # ys)"

fun json_dumps :: "(rat \<Rightarrow> string) \<Rightarrow> json \<Rightarrow> string"
  and dumps_items :: "(rat \<Rightarrow> string) \<Rightarrow> json list \<Rightarrow> string list"
  and dumps_pairs :: "(rat \<Rightarrow> string) \<Rightarrow> (string \<times> json) list \<Rightarrow> string list" where
  "json_dumps float_repr JNull = ''null''"
| "json_dumps float_repr (JBool b) = (if b then ''true'' else ''false'')"
| "json_dumps float_repr (JInt i) = string_of_int i"
| "json_dumps float_repr (JFloat r) = float_repr r"
| "json_dumps float_repr (JStr s) = encode_basestring s"
| "json_dumps float_repr (JList xs) = ''['' @ join '', '' (dumps_items float_repr xs) @ '']''"
| "json_dumps float_repr (JDict kvs) = ''{'' @ join '', '' (dumps_pairs float_repr kvs) @ ''}''"
| "dumps_items float_repr [] = []"
| "dumps_items float_repr (x # xs) = json_dumps float_repr x # dumps_items float_repr xs"
| "dumps_pairs float_repr [] = []"
| "dumps_pairs float_repr ((k, v) # kvs) =
     (encode_basestring k @ '': '' @ json_dumps float_repr v) # dumps_pairs float_repr kvs"

text \<open>\<open>d[k] = v\<close> on a dict: an existing key keeps its place, a new key goes last.\<close>

fun dict_set :: "('k \<times> 'v) list \<Rightarrow> 'k \<Rightarrow> 'v \<Rightarrow> ('k \<times> 'v) list" where
  "dict_set [] k v = [(k, v)]"
| "dict_set ((k', v') # d) k v = (if k' = k then (k, v) # d else (k', v') # dict_set d k v)"

section \<open>common/errors.py\<close>

record app_error =
  message :: string
  error_type :: string
  code :: string
  details :: "(string \<times> json) list"
  http_status :: int


definition ServiceError :: "string \<Rightarrow> string \<Rightarrow> app_error" where
  "ServiceError msg c =
     \<lparr>message = msg, error_type = ''service_error'', code = c, details = [], http_status = 503\<rparr>"


datatype exn = AppExn app_error | PyExn py_error

section \<open>common/protocol_conversion.py: requests\<close>

definition OPENAI_PROTOCOL :: string where "OPENAI_PROTOCOL = ''openai''"
definition ANTHROPIC_PROTOCOL :: string where "ANTHROPIC_PROTOCOL = ''anthropic''"

definition normalize_protocol :: "string \<Rightarrow> app_error + string" where
  "normalize_protocol p =
     (let protocol = strip (lower (if p = [] then OPENAI_PROTOCOL else p))
      in if protocol \<noteq> OPENAI_PROTOCOL \<and> protocol \<noteq> ANTHROPIC_PROTOCOL
         then Inl (ServiceError (''Unsupported protocol '' @ [CHR 0x27] @ protocol @ [CHR 0x27])
                     ''unsupported_protocol'')
         else Inr protocol)"

text \<open>The two litellm transformations the conversion calls; \<open>Inl\<close> is an exception
  raised inside the library (\<open>LibraryError\<close> with the name of its class, when it is none
  of the built-in ones).\<close>

record litellm =
  transform_request :: "string \<Rightarrow> json list \<Rightarrow> (string \<times> json) list \<Rightarrow> py_error + json"
  translate_anthropic_to_openai :: "(string \<times> json) list \<Rightarrow> py_error + json"

text \<open>The parameters handed to \<open>AnthropicConfig().transform_request\<close>: every key of the
  body but \<open>model\<close> and \<open>messages\<close>, with \<open>max_tokens\<close> supplied when missing.\<close>

definition optional_params_of :: "(string \<times> json) list \<Rightarrow> (string \<times> json) list" where
  "optional_params_of openai_body =
     (let optional_params = filter (\<lambda>(k, v). k \<noteq> ''model'' \<and> k \<noteq> ''messages'') openai_body;
          optional_params =
            (if \<not> dict_has optional_params ''max_tokens''
                \<and> dict_has optional_params ''max_completion_tokens''
             then dict_set optional_params ''max_tokens''
                    (the (dict_get optional_params ''max_completion_tokens''))
             else optional_params)
      in if \<not> dict_has optional_params ''max_tokens''
         then dict_set optional_params ''max_tokens'' (JInt 1024)
         else optional_params)"

definition convert_request_for_supplier ::
  "litellm \<Rightarrow> string \<Rightarrow> string \<Rightarrow> string \<Rightarrow> (string \<times> json) list \<Rightarrow> string \<Rightarrow>
   exn + (string \<times> json)" where
  "convert_request_for_supplier lib request_protocol supplier_protocol path req_body target_name =
     (case normalize_protocol request_protocol of
        Inl e \<Rightarrow> Inl (AppExn e)
      | Inr request_protocol \<Rightarrow>
     (case normalize_protocol supplier_protocol of
        Inl e \<Rightarrow> Inl (AppExn e)
      | Inr supplier_protocol \<Rightarrow>
          if request_protocol = supplier_protocol then
            Inr (path, JDict (dict_set req_body ''model'' (JStr target_name)))
          else if request_protocol = OPENAI_PROTOCOL \<and> supplier_protocol = ANTHROPIC_PROTOCOL then
            (if path \<noteq> ''/v1/chat/completions'' then
               Inl (AppExn (ServiceError (''Unsupported OpenAI endpoint for conversion: '' @ path)
                              ''unsupported_protocol_conversion''))
             else
               (case dict_get req_body ''messages'' of
                  Some (JList messages) \<Rightarrow>
                    (case transform_request lib target_name messages (optional_params_of req_body) of
                       Inl e \<Rightarrow> Inl (PyExn e)
                     | Inr anthropic_body \<Rightarrow> Inr (''/v1/messages'', anthropic_body))
                | _ \<Rightarrow>
                    Inl (AppExn (ServiceError
                                   (''OpenAI request missing '' @ [CHR 0x27] @ ''messages''
                                      @ [CHR 0x27])
                                   ''invalid_request''))))
          else if request_protocol = ANTHROPIC_PROTOCOL \<and> supplier_protocol = OPENAI_PROTOCOL then
            (if path \<noteq> ''/v1/messages'' then
               Inl (AppExn (ServiceError (''Unsupported Anthropic endpoint for conversion: '' @ path)
                              ''unsupported_protocol_conversion''))
             else
               (case translate_anthropic_to_openai lib (dict_set req_body ''model'' (JStr target_name)) of
                  Inl e \<Rightarrow> Inl (PyExn e)
                | Inr openai_body \<Rightarrow> Inr (''/v1/chat/completions'', openai_body)))
          else
            Inl (AppExn (ServiceError
                           (''Unsupported protocol conversion: '' @ request_protocol @ '' -> ''
                              @ supplier_protocol)
                           ''unsupported_protocol_conversion''))))"

text \<open>A stand-in for litellm in concrete runs: the Anthropic body is the target model, the
  messages and the parameters as handed over.\<close>

definition example_litellm :: litellm where
  "example_litellm =
     \<lparr>transform_request =
        (\<lambda>m msgs params. Inr (JDict ([(''model'', JStr m), (''messages'', JList msgs)] @ params))),
      translate_anthropic_to_openai = (\<lambda>b. Inr (JDict b))\<rparr>"

definition hello_request :: "(string \<times> json) list" where
  "hello_request =
     [(''model'', JStr ''claude''),
      (''messages'', JList [JDict [(''role'', JStr ''user''), (''content'', JStr ''hello'')]])]"

section \<open>common/sanitizer.py\<close>

text \<open>
  The sanitizer counts and slices characters (\<open>len(token)\<close>, \<open>token[:4]\<close>,
  \<open>token[-2:]\<close>, \<open>value[7:]\<close>), so here a \<open>str\<close> is the list of its code points;
  \<open>codes\<close> gives the code points of an ASCII literal and \<open>utf8_encode\<close> the bytes of a
  string of code points. \<open>str.lower\<close> maps the ASCII capitals to small letters, U+212A
  to \<open>k\<close> and U+0130 to \<open>i\<close> followed by U+0307; every other code point it changes
  becomes a code point outside ASCII, which no comparison with an ASCII literal tells
  from the code point left as it is.
\<close>

definition codes :: "string \<Rightarrow> nat list" where
  "codes s = map of_char s"

definition lower_code :: "nat \<Rightarrow> nat list" where
  "lower_code n =
     (if 65 \<le> n \<and> n \<le> 90 then [n + 32]
      else if n = 0x212A then [107]
      else if n = 0x130 then [105, 0x307]
      else [n])"

definition lower_codes :: "nat list \<Rightarrow> nat list" where
  "lower_codes s = concat (map lower_code s)"



definition sanitize_authorization :: "nat list \<Rightarrow> nat list" where
  "sanitize_authorization value =
     (if value = [] then value
      else
        let (prefix, token) =
              (if startswith (lower_codes value) (codes ''bearer '')
               then (codes ''Bearer '', drop 7 value)
               else ([], value))
        in if length token \<le> 8 then prefix @ codes ''***''
           else prefix @ take 4 token @ codes ''***...***'' @ drop (length token - 2) token)"

text \<open>The mask pattern of a logged bearer credential:
  \<open>Bearer <4 chars>***...***<2 chars>\<close>, or \<open>Bearer ***\<close> for a short token.\<close>

definition bearer_mask_pattern :: "nat list \<Rightarrow> bool" where
  "bearer_mask_pattern s =
     (s = codes ''Bearer ***'' \<or>
      (length s = 22 \<and> take 7 s = codes ''Bearer '' \<and> take 9 (drop 11 s) = codes ''***...***''))"


section \<open>services/proxy_service.py\<close>

text \<open>The rows the repositories return (\<open>domain/model.py\<close> and \<open>domain/provider.py\<close>
  are not among the sources), with the fields \<open>process_request\<close> reads.\<close>

record model_mapping =
  matching_rules :: json
  mapping_is_active :: bool

record provider_mapping =
  mapping_provider_id :: int
  target_model_name :: string
  provider_rules :: json

record provider =
  provider_protocol :: string
  provider_is_active :: bool


text \<open>
  What \<open>ProxyService\<close> works with: the trace id and the clock reading of this request,
  the two repositories as lookups, the token counter chosen by protocol, the rule engine
  (\<open>rules/engine.py\<close> is not among the sources), the provider client reached through
  \<open>get_provider_client(candidate.protocol).forward\<close>, the retry handler and the
  standard library.
\<close>

record 's proxy_service =
  generate_trace_id :: string
  utcnow :: int
  get_mapping :: "json \<Rightarrow> model_mapping option"
  get_provider_mappings :: "json \<Rightarrow> provider_mapping list"
  get_by_id :: "int \<Rightarrow> provider option"
  count_messages :: "string \<Rightarrow> json \<Rightarrow> json \<Rightarrow> int"
  rule_engine_evaluate ::
    "rule_context \<Rightarrow> model_mapping \<Rightarrow> provider_mapping list \<Rightarrow> (int \<times> provider) list
     \<Rightarrow> candidate_provider list"
  client_forward ::
    "'s \<Rightarrow> candidate_provider \<Rightarrow> string \<Rightarrow> string \<Rightarrow> (nat list \<times> nat list) list
     \<Rightarrow> (string \<times> json) list \<Rightarrow> provider_response \<times> 's"
  retry :: retry_handler
  stdlib :: pylib
  float_repr :: "rat \<Rightarrow> string"





section \<open>api/proxy/openai.py\<close>











section \<open>common/protocol_conversion.py: streams\<close>













subsection \<open>Anthropic supplier, OpenAI client\<close>












subsection \<open>OpenAI supplier, Anthropic client\<close>








subsection \<open>The dispatch\<close>





subsection \<open>A stream environment for concrete runs\<close>










section \<open>Properties of the sanitizer\<close>

text \<open>
  C4, as the code has it. For a non-empty value that begins with \<open>bearer \<close> in any
  letter case, the result starts with the prefix in the one spelling \<open>Bearer \<close> and
  masks the token that follows the seven prefix characters: a token of at least 9
  characters becomes its first 4 characters, \<open>***...***\<close> and its last 2 characters; a
  shorter token becomes \<open>***\<close>. Characters are code points, as \<open>len\<close> and slicing count
  them. The result always matches the mask pattern, and it is determined by the first
  4 and the last 2 characters of the token: two tokens of at least 9 characters that
  agree on them give the same result, whatever lies between.
\<close>

theorem sanitize_authorization_bearer:
  assumes "value \<noteq> []" and "startswith (lower_codes value) (codes ''bearer '')"
  shows "(9 \<le> length (drop 7 value) \<longrightarrow>
            sanitize_authorization value =
              codes ''Bearer '' @ take 4 (drop 7 value) @ codes ''***...***'' @
                drop (length (drop 7 value) - 2) (drop 7 value))
       \<and> (length (drop 7 value) < 9 \<longrightarrow> sanitize_authorization value = codes ''Bearer ***'')
       \<and> bearer_mask_pattern (sanitize_authorization value)
       \<and> (\<forall>other. startswith (lower_codes other) (codes ''bearer '') \<and> 9 \<le> length (drop 7 value)
             \<and> 9 \<le> length (drop 7 other)
             \<and> take 4 (drop 7 other) = take 4 (drop 7 value)
             \<and> drop (length (drop 7 other) - 2) (drop 7 other) =
                 drop (length (drop 7 value) - 2) (drop 7 value)
             \<longrightarrow> sanitize_authorization other = sanitize_authorization value)"
proof -
  have long: "sanitize_authorization v =
      codes ''Bearer '' @ take 4 (drop 7 v) @ codes ''***...***''
        @ drop (length (drop 7 v) - 2) (drop 7 v)"
    if "startswith (lower_codes v) (codes ''bearer '')" and "9 \<le> length (drop 7 v)" for v
  proof -
    from that(2) have "v \<noteq> []" by auto
    with that show ?thesis by (simp add: sanitize_authorization_def)
  qed
  have short: "sanitize_authorization value = codes ''Bearer ***''" if "length (drop 7 value) < 9"
    using assms that by (simp add: sanitize_authorization_def codes_def)
  have mask: "bearer_mask_pattern (sanitize_authorization value)"
  proof (cases "9 \<le> length (drop 7 value)")
    case True
    then show ?thesis
      using long [OF assms(2) True] by (simp add: bearer_mask_pattern_def min_def codes_def)
  next
    case False
    then show ?thesis using short by (simp add: bearer_mask_pattern_def)
  qed
  show ?thesis
    using long [OF assms(2)] short mask by (auto simp: long)
qed

theorem sanitize_authorization_bearer_witness:
  "sanitize_authorization (codes ''bearer sk-1234567890abcdef'') = codes ''Bearer sk-1***...***ef''
   \<and> bearer_mask_pattern (sanitize_authorization (codes ''bearer sk-1234567890abcdef''))
   \<and> length (drop 7 (codes ''Bearer '' @ [20013, 25991, 23383, 31526, 20018])) = 5
   \<and> sanitize_authorization (codes ''Bearer '' @ [20013, 25991, 23383, 31526, 20018])
       = codes ''Bearer ***''"
proof -
  let ?v = "codes ''bearer sk-1234567890abcdef''"
  let ?w = "codes ''Bearer '' @ [20013, 25991, 23383, 31526, 20018]"
  have ne: "?v \<noteq> []" by (simp add: codes_def)
  have sw: "startswith (lower_codes ?v) (codes ''bearer '')"
    by (simp add: startswith_def lower_codes_def lower_code_def codes_def)
  have "9 \<le> length (drop 7 ?v)" by (simp add: codes_def)
  with sanitize_authorization_bearer [OF ne sw]
  have "sanitize_authorization ?v =
          codes ''Bearer '' @ take 4 (drop 7 ?v) @ codes ''***...***'' @
            drop (length (drop 7 ?v) - 2) (drop 7 ?v)"
    and m: "bearer_mask_pattern (sanitize_authorization ?v)"
    by blast+
  then have r1: "sanitize_authorization ?v = codes ''Bearer sk-1***...***ef''"
    by (simp add: codes_def)
  have ne2: "?w \<noteq> []" by (simp add: codes_def)
  have sw2: "startswith (lower_codes ?w) (codes ''bearer '')"
    by (simp add: startswith_def lower_codes_def lower_code_def codes_def)
  have len2: "length (drop 7 ?w) = 5" by (simp add: codes_def)
  with sanitize_authorization_bearer [OF ne2 sw2]
  have r2: "sanitize_authorization ?w = codes ''Bearer ***''" by simp
  from r1 m len2 r2 show ?thesis by (intro conjI)
qed

text \<open>The sentence of the specification fails on \<open>bearer sk-1234567890abcdef\<close>: the
  prefix of the value is not kept as it is written, the result starts with \<open>Bearer \<close>
  where the value starts with \<open>bearer \<close>.\<close>

theorem sanitize_authorization_prefix_counterexample:
  "codes ''bearer sk-1234567890abcdef'' \<noteq> []
   \<and> startswith (lower_codes (codes ''bearer sk-1234567890abcdef'')) (codes ''bearer '')
   \<and> take 7 (codes ''bearer sk-1234567890abcdef'') = codes ''bearer ''
   \<and> sanitize_authorization (codes ''bearer sk-1234567890abcdef'')
       = codes ''Bearer sk-1***...***ef''
   \<and> sanitize_authorization (codes ''bearer sk-1234567890abcdef'') \<noteq>
        take 7 (codes ''bearer sk-1234567890abcdef'')
          @ take 4 (drop 7 (codes ''bearer sk-1234567890abcdef'')) @ codes ''***...***''
          @ drop (length (drop 7 (codes ''bearer sk-1234567890abcdef'')) - 2)
              (drop 7 (codes ''bearer sk-1234567890abcdef''))"
  by (simp add: sanitize_authorization_def startswith_def lower_codes_def lower_code_def
      codes_def)

section \<open>Properties of the rule evaluator\<close>

lemma py_cmp_mismatch:
  assumes "num_of a = None"
    and "\<not> (\<exists>s t. a = JStr s \<and> e = JStr t)"
    and "\<not> (\<exists>xs ys. a = JList xs \<and> e = JList ys)"
  shows "py_cmp oper a e = Inl TypeError"
  using assms by (cases a; cases e) auto

lemma get_nested_value_collapses:
  "get_nested_value obj path =
     (case spec_resolve_nested obj path of None \<Rightarrow> JNull | Some v \<Rightarrow> v)"
proof (induction obj path rule: get_nested_value.induct)
  case (1 obj)
  then show ?case by simp
next
  case (2 obj current remaining)
  then show ?case
    by (simp split: option.splits json.splits add: Let_def)
qed

lemma get_value_collapses: "get_value ctx p = absent_as_none (spec_resolve ctx p)"
  by (simp add: get_value_def spec_resolve_def absent_as_none_def Let_def
      get_nested_value_collapses get_token_usage_value_def split: option.splits list.splits)

text \<open>
  C5. Whatever the context, \<open>evaluate_ruleset\<close> is true for an absent rule set and for
  a rule set whose \<open>rules\<close> list is empty, under every \<open>logic\<close>, \<open>AND\<close> and \<open>OR\<close>
  included.
\<close>

theorem evaluate_ruleset_empty_is_true:
  "evaluate_ruleset L None ctx
   \<and> evaluate_ruleset L (Some \<lparr>rules = [], logic = lg\<rparr>) ctx
   \<and> evaluate_ruleset L (Some \<lparr>rules = [], logic = ''AND''\<rparr>) ctx
   \<and> evaluate_ruleset L (Some \<lparr>rules = [], logic = ''OR''\<rparr>) ctx"
  by (simp add: evaluate_ruleset_def is_empty_def)

text \<open>
  C6, as the code has it. For a rule whose operator is \<open>gt\<close>, \<open>gte\<close>, \<open>lt\<close> or \<open>lte\<close>:
  the result is false when the field resolves to \<open>None\<close>, when it resolves to the
  \<open>TokenUsage\<close> object, and when it resolves to a value that is not a number and that
  Python cannot order against the expected value, that is, unless both are strings or
  both are lists. In particular a string against an expected number is false.
\<close>

theorem ordering_operators_false_when_unorderable:
  assumes "lower (operator r) \<in> {''gt'', ''gte'', ''lt'', ''lte''}"
  shows "(get_value ctx (field r) = Val JNull \<longrightarrow> \<not> evaluate_rule L r ctx)
       \<and> (\<forall>u. get_value ctx (field r) = Usage u \<longrightarrow> \<not> evaluate_rule L r ctx)
       \<and> (\<forall>a. get_value ctx (field r) = Val a \<and> num_of a = None
               \<and> \<not> (\<exists>s t. a = JStr s \<and> expected_value r = JStr t)
               \<and> \<not> (\<exists>xs ys. a = JList xs \<and> expected_value r = JList ys)
             \<longrightarrow> \<not> evaluate_rule L r ctx)"
  using assms
  by (auto simp: evaluate_rule_def apply_operator_def evaluate_gt_def evaluate_gte_def
      evaluate_lt_def evaluate_lte_def compare_def py_cmp_mismatch)

theorem ordering_operators_false_when_unorderable_witness:
  "lower (operator \<lparr>field = ''headers.x-priority'', operator = ''GT'', expected_value = JInt 3\<rparr>)
     \<in> {''gt'', ''gte'', ''lt'', ''lte''}
   \<and> get_value example_context ''headers.x-priority'' = Val (JStr ''high'')
   \<and> \<not> evaluate_rule literal_lib
         \<lparr>field = ''headers.x-priority'', operator = ''GT'', expected_value = JInt 3\<rparr>
         example_context"
proof -
  let ?r = "\<lparr>field = ''headers.x-priority'', operator = ''GT'', expected_value = JInt 3\<rparr>"
  have "lower ''GT'' = ''gt''" by code_simp
  then have op: "lower (operator ?r) \<in> {''gt'', ''gte'', ''lt'', ''lte''}" by simp
  have gv: "get_value example_context (field ?r) = Val (JStr ''high'')"
    by (simp add: get_value_def example_context_def lower_def lower_char_def endswith_def)
  from ordering_operators_false_when_unorderable [OF op, of example_context literal_lib] gv
  have "\<not> evaluate_rule literal_lib ?r example_context" by simp
  with op gv show ?thesis by simp
qed

text \<open>The sentence of the specification fails for a string compared with a string: \<open>model > "gpt-3"\<close>
  holds for the model \<open>gpt-4\<close>.\<close>

theorem ordering_operators_string_counterexample:
  "get_value example_context ''model'' = Val (JStr ''gpt-4'')
   \<and> num_of (JStr ''gpt-4'') = None
   \<and> evaluate_rule literal_lib
       \<lparr>field = ''model'', operator = ''gt'', expected_value = JStr ''gpt-3''\<rparr> example_context"
  by (simp add: evaluate_rule_def get_value_def example_context_def lower_def lower_char_def
      apply_operator_def evaluate_gt_def compare_def)

text \<open>
  C7, as the code has it. \<open>get_value\<close> returns \<open>None\<close> for a path that does not
  resolve, which is the value a path that is present with a null value resolves to: it
  is the resolution of the path with the absent outcome collapsed into \<open>None\<close>. The
  \<open>exists\<close> operator tests the returned value against \<open>None\<close>, so with a false
  expected value it holds exactly for the paths that do not resolve and the paths that
  are present with a null value.
\<close>

theorem exists_operator_tests_for_none:
  assumes "lower (operator r) = ''exists''"
  shows "get_value ctx (field r) = absent_as_none (spec_resolve ctx (field r))
   \<and> evaluate_rule L r ctx =
       (if py_truthy (expected_value r) then get_value ctx (field r) \<noteq> Val JNull
        else get_value ctx (field r) = Val JNull)
   \<and> (\<not> py_truthy (expected_value r) \<longrightarrow>
        evaluate_rule L r ctx =
          (spec_resolve ctx (field r) = None \<or> spec_resolve ctx (field r) = Some (Val JNull)))"
  using assms
  by (auto simp: get_value_collapses evaluate_rule_def apply_operator_def evaluate_exists_def
       absent_as_none_def split: option.splits)

theorem exists_operator_tests_for_none_witness:
  "lower (operator \<lparr>field = ''headers.not-exist'', operator = ''exists'', expected_value = JBool False\<rparr>)
     = ''exists''
   \<and> spec_resolve example_context ''headers.not-exist'' = None
   \<and> evaluate_rule literal_lib
       \<lparr>field = ''headers.not-exist'', operator = ''exists'', expected_value = JBool False\<rparr>
       example_context"
proof -
  let ?r = "\<lparr>field = ''headers.not-exist'', operator = ''exists'', expected_value = JBool False\<rparr>"
  have op: "lower (operator ?r) = ''exists''"
    by (simp add: lower_def lower_char_def)
  have sr: "spec_resolve example_context (field ?r) = None"
    by (simp add: spec_resolve_def example_context_def lower_def lower_char_def endswith_def)
  from exists_operator_tests_for_none [OF op, of example_context literal_lib] sr
  have "evaluate_rule literal_lib ?r example_context" by (simp add: absent_as_none_def)
  with op sr show ?thesis by simp
qed

text \<open>The sentence of the specification fails on a path that is present with a null value: the body
  key \<open>stop\<close> is present and null, \<open>get_value\<close> returns for it what it returns for the
  missing key \<open>missing\<close>, and \<open>exists\<close> with a false expected value holds.\<close>

theorem exists_false_on_present_null_counterexample:
  "spec_resolve example_context ''body.stop'' = Some (Val JNull)
   \<and> spec_resolve example_context ''body.missing'' = None
   \<and> get_value example_context ''body.stop'' = get_value example_context ''body.missing''
   \<and> evaluate_rule literal_lib
       \<lparr>field = ''body.stop'', operator = ''exists'', expected_value = JBool False\<rparr>
       example_context"
  by (simp add: evaluate_rule_def get_value_def spec_resolve_def example_context_def lower_def
      lower_char_def apply_operator_def evaluate_exists_def endswith_def)

text \<open>
  C10. For every actual and expected value, \<open>not_contains\<close> is the negation of
  \<open>contains\<close>; on an actual value that is absent or not a string, \<open>contains\<close> is false
  and \<open>not_contains\<close> is true.
\<close>

theorem not_contains_is_negation_of_contains:
  "evaluate_not_contains L actual expected = (\<not> evaluate_contains L actual expected)
   \<and> ((\<nexists>s. actual = Val (JStr s)) \<longrightarrow>
        \<not> evaluate_contains L actual expected \<and> evaluate_not_contains L actual expected)"
  by (auto simp: evaluate_not_contains_def evaluate_contains_def
      split: pyval.splits json.splits)

theorem not_contains_is_negation_of_contains_witness:
  "(\<nexists>s. Val JNull = Val (JStr s))
   \<and> \<not> evaluate_contains literal_lib (Val JNull) (JStr ''hi'')
   \<and> evaluate_not_contains literal_lib (Val JNull) (JStr ''hi'')
   \<and> evaluate_contains literal_lib (Val (JStr ''high'')) (JStr ''hi'')
   \<and> \<not> evaluate_not_contains literal_lib (Val (JStr ''high'')) (JStr ''hi'')"
proof -
  have h: "\<nexists>s. Val JNull = Val (JStr s)" by simp
  have c: "evaluate_contains literal_lib (Val (JStr ''high'')) (JStr ''hi'')"
    by (simp add: evaluate_contains_def py_str_def startswith_def)
  from not_contains_is_negation_of_contains [of literal_lib "Val JNull" "JStr ''hi''"] h
  have a: "\<not> evaluate_contains literal_lib (Val JNull) (JStr ''hi'')
        \<and> evaluate_not_contains literal_lib (Val JNull) (JStr ''hi'')" by blast
  from not_contains_is_negation_of_contains [of literal_lib "Val (JStr ''high'')" "JStr ''hi''"] c
  have "\<not> evaluate_not_contains literal_lib (Val (JStr ''high'')) (JStr ''hi'')" by blast
  with h a c show ?thesis by blast
qed

section \<open>Properties of the retry handler\<close>

lemma server_error_not_success:
  "500 \<le> status_code r \<Longrightarrow> is_server_error r \<and> \<not> is_success r"
  by (simp add: is_server_error_def is_success_def)

lemma responses_of_append: "responses_of (xs @ ys) = responses_of xs @ responses_of ys"
  by (induction xs rule: responses_of.induct) auto

lemma calls_of_append: "calls_of (xs @ ys) = calls_of xs @ calls_of ys"
  by (induction xs rule: calls_of.induct) auto

lemma trace_of_append:
  "trace_of f s xs s' \<Longrightarrow> trace_of f s' ys s'' \<Longrightarrow> trace_of f s (xs @ ys) s''"
  by (induction f s xs s' rule: trace_of.induct) auto

lemma length_calls_of: "length (calls_of evs) = length (responses_of evs)"
  by (induction evs rule: calls_of.induct) auto

lemma same_provider_loop_all_fail:
  assumes "\<And>s c. 500 \<le> status_code (fst (fwd s c))" and "same < max_retries h"
  shows "\<exists>r s' evs.
           same_provider_loop h fwd cur same total_count lastr s =
             (Switch (total_count + (max_retries h - same)) (Some r), s', evs)
           \<and> trace_of fwd s evs s'
           \<and> calls_of evs = replicate (nat (max_retries h - same)) cur
           \<and> responses_of evs \<noteq> [] \<and> last (responses_of evs) = r"
  using assms
proof (induction h fwd cur same total_count lastr s rule: same_provider_loop.induct)
  case (1 h fwd cur same total_count lastr s)
  obtain resp s' where f: "fwd s cur = (resp, s')" by (cases "fwd s cur")
  from "1.prems"(1) [of s cur] f have e: "is_server_error resp" "\<not> is_success resp"
    using server_error_not_success by auto
  show ?case
  proof (cases "same + 1 < max_retries h")
    case True
    from "1.IH" [OF "1.prems"(2) f [symmetric] e(2) e(1) True "1.prems"(1) True]
    obtain r s'' evs where
      rec: "same_provider_loop h fwd cur (same + 1) (total_count + 1) (Some resp) s' =
              (Switch (total_count + 1 + (max_retries h - (same + 1))) (Some r), s'', evs)"
      and evs: "trace_of fwd s' evs s''"
        "calls_of evs = replicate (nat (max_retries h - (same + 1))) cur"
        "responses_of evs \<noteq> []" "last (responses_of evs) = r"
      by blast
    let ?evs = "Forward cur resp # Sleep (retry_delay_ms h) # evs"
    have "same_provider_loop h fwd cur same total_count lastr s =
            (Switch (total_count + (max_retries h - same)) (Some r), s'', ?evs)"
      using "1.prems"(2) f e True rec
      by (subst same_provider_loop.simps) (simp add: algebra_simps)
    moreover have "trace_of fwd s ?evs s''" using f evs(1) by simp
    moreover have "nat (max_retries h - same) = Suc (nat (max_retries h - (same + 1)))"
      using True by simp
    then have "calls_of ?evs = replicate (nat (max_retries h - same)) cur"
      using evs(2) by simp
    moreover have "responses_of ?evs \<noteq> []" by simp
    moreover have "last (responses_of ?evs) = r" using evs by simp
    ultimately show ?thesis by blast
  next
    case False
    with "1.prems"(2) have eq: "max_retries h - same = 1" by simp
    have "same_provider_loop h fwd cur same total_count lastr s =
            (Switch (total_count + (max_retries h - same)) (Some resp), s', [Forward cur resp])"
      using "1.prems"(2) f e False eq
      by (subst same_provider_loop.simps) simp
    then show ?thesis using eq f by simp
  qed
qed

lemma get_next_untried_provider_Some:
  "get_next_untried_provider cs tried = Some c \<Longrightarrow> c \<in> set cs \<and> provider_id c \<notin> tried"
  unfolding get_next_untried_provider_def find_Some_iff by auto

lemma get_next_untried_provider_None:
  "get_next_untried_provider cs tried = None \<Longrightarrow> provider_id ` set cs - tried = {}"
  unfolding get_next_untried_provider_def find_None_iff by auto

lemma card_untried_step:
  assumes "c \<in> set cs" and "provider_id c \<notin> tried"
  shows "card (provider_id ` set cs - tried) =
           Suc (card (provider_id ` set cs - insert (provider_id c) tried))"
proof -
  have "provider_id ` set cs - tried =
          insert (provider_id c) (provider_id ` set cs - insert (provider_id c) tried)"
    using assms by auto
  then show ?thesis
    by (metis (no_types, lifting) Diff_iff List.finite_set card_insert_disjoint finite_Diff
        finite_imageI insertI1)
qed

lemma count_list_replicate_eq: "count_list (replicate n x) y = (if x = y then n else 0)"
  by (induction n) auto

lemma provider_loop_all_fail:
  assumes "\<And>s c. 500 \<le> status_code (fst (fwd s c))" and "0 < max_retries h"
    and "cur \<in> set cands" and "provider_id cur \<notin> tried"
    and "distinct (map provider_id cands)"
  shows "\<exists>res s' evs.
           provider_loop h cands fwd cur tried total_count lastr s = (res, s', evs)
           \<and> trace_of fwd s evs s'
           \<and> \<not> success res
           \<and> retry_count res =
               total_count + max_retries h * int (card (provider_id ` set cands - tried))
           \<and> responses_of evs \<noteq> []
           \<and> response res = last (responses_of evs)
           \<and> (\<forall>c\<in>set cands. count_list (calls_of evs) c =
                 (if provider_id c \<in> tried then 0 else nat (max_retries h)))
           \<and> set (calls_of evs) \<subseteq> set cands"
  using assms
proof (induction h cands fwd cur tried total_count lastr s rule: provider_loop.induct)
  case (1 h cands fwd cur tried total_count lastr s)
  let ?tried = "insert (provider_id cur) tried"
  let ?n = "nat (max_retries h)"
  from same_provider_loop_all_fail [of fwd 0 h cur total_count lastr s, OF "1.prems"(1) "1.prems"(2)]
  obtain r s1 evs1 where
    inner: "same_provider_loop h fwd cur 0 total_count lastr s =
              (Switch (total_count + max_retries h) (Some r), s1, evs1)"
    and evs1: "trace_of fwd s evs1 s1" "calls_of evs1 = replicate ?n cur"
      "responses_of evs1 \<noteq> []" "last (responses_of evs1) = r"
    by auto
  have card_eq: "card (provider_id ` set cands - tried) =
                   Suc (card (provider_id ` set cands - ?tried))"
    using card_untried_step "1.prems"(3,4) by blast
  have same_id: "c = cur" if "c \<in> set cands" and "provider_id c = provider_id cur" for c
    using that "1.prems"(3,5) by (meson distinct_map inj_onD)
  have calls1: "set (calls_of evs1) \<subseteq> set cands"
    using evs1(2) "1.prems"(3) by auto
  show ?case
  proof (cases "get_next_untried_provider cands ?tried")
    case None
    then have empty: "provider_id ` set cands - ?tried = {}"
      using get_next_untried_provider_None by blast
    with card_eq have c1: "card (provider_id ` set cands - tried) = 1" by simp
    have run: "provider_loop h cands fwd cur tried total_count lastr s =
            (\<lparr>response = r, retry_count = total_count + max_retries h,
              final_provider = Some cur, success = False\<rparr>, s1, evs1)"
      using inner None by (subst provider_loop.simps) simp
    have counts: "count_list (calls_of evs1) c =
                    (if provider_id c \<in> tried then 0 else ?n)" if "c \<in> set cands" for c
    proof (cases "provider_id c \<in> tried")
      case True
      with "1.prems"(4) have "c \<noteq> cur" by auto
      with True show ?thesis by (simp add: evs1(2) count_list_replicate_eq)
    next
      case False
      with that empty have "provider_id c = provider_id cur" by auto
      with that same_id have "c = cur" by blast
      with False show ?thesis by (simp add: evs1(2) count_list_replicate_eq)
    qed
    from run evs1 c1 counts calls1 show ?thesis by simp
  next
    case (Some nxt)
    then have nx: "nxt \<in> set cands" "provider_id nxt \<notin> ?tried"
      using get_next_untried_provider_Some by blast+
    from "1.IH" [OF refl inner [symmetric] refl refl Some "1.prems"(1,2) nx "1.prems"(5)]
    obtain res s2 evs2 where
      rec: "provider_loop h cands fwd nxt ?tried (total_count + max_retries h) (Some r) s1 =
              (res, s2, evs2)"
      and res: "trace_of fwd s1 evs2 s2" "\<not> success res"
        "retry_count res = total_count + max_retries h +
           max_retries h * int (card (provider_id ` set cands - ?tried))"
        "responses_of evs2 \<noteq> []" "response res = last (responses_of evs2)"
        "\<forall>c\<in>set cands. count_list (calls_of evs2) c =
           (if provider_id c \<in> ?tried then 0 else ?n)"
        "set (calls_of evs2) \<subseteq> set cands"
      by blast
    have run: "provider_loop h cands fwd cur tried total_count lastr s = (res, s2, evs1 @ evs2)"
      using inner Some rec by (subst provider_loop.simps) simp
    have tr: "trace_of fwd s (evs1 @ evs2) s2"
      using trace_of_append [OF evs1(1) res(1)] .
    have counts: "count_list (calls_of (evs1 @ evs2)) c =
                    (if provider_id c \<in> tried then 0 else ?n)" if "c \<in> set cands" for c
    proof (cases "c = cur")
      case True
      with res(6) that "1.prems"(4) show ?thesis
        by (simp add: calls_of_append evs1(2) count_list_replicate_eq)
    next
      case False
      with that same_id have "provider_id c \<noteq> provider_id cur" by blast
      with False res(6) that show ?thesis
        by (simp add: calls_of_append evs1(2) count_list_replicate_eq)
    qed
    from run tr res evs1 card_eq counts calls1 show ?thesis
      by (simp add: responses_of_append calls_of_append algebra_simps)
  qed
qed

text \<open>
  C1, as the code has it. For a non-empty candidate list with pairwise distinct provider
  ids, a strategy whose \<open>select\<close> returns a member of the list, a forward function that
  answers every call with a status of 500 or more, and at least one attempt per provider
  configured (\<open>max_retries\<close> of 1 or more): the events of \<open>execute_with_retry\<close> are
  a run of the forward function, which is called \<open>max_retries\<close> times on each
  candidate and on nothing else, \<open>max_retries * len(candidates)\<close> calls in all; the
  result has \<open>success = False\<close>, \<open>retry_count = max_retries * len(candidates)\<close>, and
  as its response the response of the last of these calls.
\<close>

theorem all_server_errors_exhaust_candidates:
  assumes "candidates \<noteq> []" and "distinct (map provider_id candidates)"
    and "strategy_select h candidates requested_model = Some first"
    and "first \<in> set candidates"
    and "0 < max_retries h"
    and "\<And>s c. 500 \<le> status_code (fst (forward_fn s c))"
  shows "\<exists>res s' evs.
           execute_with_retry h candidates requested_model forward_fn s = (res, s', evs)
           \<and> trace_of forward_fn s evs s'
           \<and> int (length (responses_of evs)) = max_retries h * int (length candidates)
           \<and> (\<forall>c\<in>set candidates. int (count_list (calls_of evs) c) = max_retries h)
           \<and> set (calls_of evs) \<subseteq> set candidates
           \<and> \<not> success res
           \<and> retry_count res = max_retries h * int (length candidates)
           \<and> responses_of evs \<noteq> []
           \<and> response res = last (responses_of evs)"
proof -
  have card: "card (provider_id ` set candidates - {}) = length candidates"
    using assms(2) by (metis Diff_empty distinct_card length_map set_map)
  from provider_loop_all_fail
         [of forward_fn h first candidates "{}" 0 None s, OF assms(6,5,4) _ assms(2)]
  obtain res s' evs where
    run: "provider_loop h candidates forward_fn first {} 0 None s = (res, s', evs)"
    and tr: "trace_of forward_fn s evs s'"
    and res: "\<not> success res"
      "retry_count res = 0 + max_retries h * int (card (provider_id ` set candidates - {}))"
      "responses_of evs \<noteq> []" "response res = last (responses_of evs)"
    and counts: "\<forall>c\<in>set candidates. count_list (calls_of evs) c =
                   (if provider_id c \<in> {} then 0 else nat (max_retries h))"
    and calls: "set (calls_of evs) \<subseteq> set candidates"
    by auto
  have dist: "distinct candidates" using assms(2) by (simp add: distinct_map)
  have len: "int (length (responses_of evs)) = max_retries h * int (length candidates)"
  proof -
    have "length (calls_of evs) = (\<Sum>c\<in>set candidates. count_list (calls_of evs) c)"
      using sum_count_set [OF calls] by simp
    also have "\<dots> = (\<Sum>c\<in>set candidates. nat (max_retries h))"
      using counts by simp
    also have "\<dots> = card (set candidates) * nat (max_retries h)" by simp
    also have "\<dots> = length candidates * nat (max_retries h)"
      using dist by (simp add: distinct_card)
    finally show ?thesis using assms(5) by (simp add: length_calls_of)
  qed
  have exec: "execute_with_retry h candidates requested_model forward_fn s = (res, s', evs)"
    using assms(1,3) run by (simp add: execute_with_retry_def)
  from exec tr len counts calls res card assms(5) show ?thesis by simp
qed

theorem all_server_errors_exhaust_candidates_witness:
  "execute_with_retry example_handler [provider_one, provider_two] (JStr ''test'') always_500 0 =
     (\<lparr>response = error_response 500 ''Server error'', retry_count = 6,
       final_provider = Some provider_two, success = False\<rparr>,
      6,
      [Forward provider_one (error_response 500 ''Server error''), Sleep 1000,
       Forward provider_one (error_response 500 ''Server error''), Sleep 1000,
       Forward provider_one (error_response 500 ''Server error''),
       Forward provider_two (error_response 500 ''Server error''), Sleep 1000,
       Forward provider_two (error_response 500 ''Server error''), Sleep 1000,
       Forward provider_two (error_response 500 ''Server error'')])
   \<and> trace_of always_500 0
        (snd (snd (execute_with_retry example_handler [provider_one, provider_two] (JStr ''test'')
                     always_500 0))) 6
   \<and> length (responses_of
        (snd (snd (execute_with_retry example_handler [provider_one, provider_two] (JStr ''test'')
                     always_500 0)))) = 6"
proof -
  have a: "[provider_one, provider_two] \<noteq> []" by simp
  have b: "distinct (map provider_id [provider_one, provider_two])"
    by (simp add: provider_one_def provider_two_def)
  have c: "strategy_select example_handler [provider_one, provider_two] (JStr ''test'') = Some provider_one"
    by (simp add: example_handler_def first_candidate_strategy_def)
  have d: "provider_one \<in> set [provider_one, provider_two]" by simp
  have e: "0 < max_retries example_handler" by (simp add: example_handler_def)
  have f: "\<And>s c. 500 \<le> status_code (fst (always_500 s c))"
    by (simp add: always_500_def error_response_def)
  have run: "execute_with_retry example_handler [provider_one, provider_two] (JStr ''test'')
               always_500 0 =
     (\<lparr>response = error_response 500 ''Server error'', retry_count = 6,
       final_provider = Some provider_two, success = False\<rparr>,
      6,
      [Forward provider_one (error_response 500 ''Server error''), Sleep 1000,
       Forward provider_one (error_response 500 ''Server error''), Sleep 1000,
       Forward provider_one (error_response 500 ''Server error''),
       Forward provider_two (error_response 500 ''Server error''), Sleep 1000,
       Forward provider_two (error_response 500 ''Server error''), Sleep 1000,
       Forward provider_two (error_response 500 ''Server error'')])"
    by (simp add: execute_with_retry_def example_handler_def first_candidate_strategy_def
        provider_loop.simps same_provider_loop.simps always_500_def
        is_success_def is_server_error_def get_next_untried_provider_def provider_one_def
        provider_two_def)
       (simp add: error_response_def)
  from all_server_errors_exhaust_candidates
         [where forward_fn = always_500 and s = "0::nat", OF a b c d e f]
  obtain res s' evs where
    r: "execute_with_retry example_handler [provider_one, provider_two] (JStr ''test'') always_500 0
          = (res, s', evs)"
    and tr: "trace_of always_500 0 evs s'"
    and len: "int (length (responses_of evs))
                = max_retries example_handler * int (length [provider_one, provider_two])"
    by blast
  from r run have "s' = 6" by simp
  with r tr len run show ?thesis by (simp add: example_handler_def)
qed

text \<open>The sentence of the specification fails when no attempt is configured: the
  forward function is never called, and the response is the one the handler makes up,
  503 \<open>All providers failed\<close>, where every response of the forward function is a 500.\<close>

theorem zero_attempts_counterexample:
  "[provider_one, provider_two] \<noteq> []
   \<and> distinct (map provider_id [provider_one, provider_two])
   \<and> strategy_select zero_attempts_handler [provider_one, provider_two] (JStr ''test'')
       = Some provider_one
   \<and> status_code (fst (always_500 0 provider_one)) = 500
   \<and> execute_with_retry zero_attempts_handler [provider_one, provider_two] (JStr ''test'')
        always_500 0 =
       (\<lparr>response = error_response 503 ''All providers failed'', retry_count = 0,
         final_provider = Some provider_two, success = False\<rparr>, 0, [])
   \<and> status_code (error_response 503 ''All providers failed'') = 503"
  by (simp add: execute_with_retry_def zero_attempts_handler_def first_candidate_strategy_def
      provider_loop.simps same_provider_loop.simps always_500_def error_response_def
      get_next_untried_provider_def provider_one_def provider_two_def)





section \<open>Properties of the request conversion\<close>

lemma map_of_dict_set: "map_of (dict_set d k v) k' = (if k' = k then Some v else map_of d k')"
  by (induction d k v rule: dict_set.induct) auto

lemma map_of_filter_keys:
  "map_of (filter (\<lambda>(k, v). P k) d) k' = (if P k' then map_of d k' else None)"
  by (induction d) auto

lemma optional_params_max_tokens:
  "dict_get (optional_params_of b) ''max_tokens'' =
     (case dict_get b ''max_tokens'' of
        Some v \<Rightarrow> Some v
      | None \<Rightarrow> (case dict_get b ''max_completion_tokens'' of
                   Some v \<Rightarrow> Some v
                 | None \<Rightarrow> Some (JInt 1024)))"
  by (auto simp: optional_params_of_def dict_get_def dict_has_def Let_def map_of_dict_set
      map_of_filter_keys [where P = "\<lambda>k. k \<noteq> ''model'' \<and> k \<noteq> ''messages''"]
      split: option.splits)

text \<open>
  C8. For a request in the OpenAI protocol to a supplier in the Anthropic protocol,
  \<open>convert_request_for_supplier\<close> fails with \<open>unsupported_protocol_conversion\<close> on
  every path but \<open>/v1/chat/completions\<close>; whenever it succeeds the path was
  \<open>/v1/chat/completions\<close>, the returned path is \<open>/v1/messages\<close> and the returned body
  is the library's translation of the messages and the translated parameters; and when
  the body has no \<open>max_tokens\<close> key the translated parameters carry \<open>max_tokens\<close>,
  taken from \<open>max_completion_tokens\<close> when that is present and 1024 otherwise.
\<close>

theorem openai_request_to_anthropic_supplier:
  assumes "normalize_protocol request_protocol = Inr OPENAI_PROTOCOL"
    and "normalize_protocol supplier_protocol = Inr ANTHROPIC_PROTOCOL"
  shows "(path \<noteq> ''/v1/chat/completions'' \<longrightarrow>
            (\<exists>e. convert_request_for_supplier lib request_protocol supplier_protocol path
                    req_body target_name = Inl (AppExn e)
                 \<and> code e = ''unsupported_protocol_conversion''))
       \<and> (\<forall>p b. convert_request_for_supplier lib request_protocol supplier_protocol path
                    req_body target_name = Inr (p, b)
               \<longrightarrow> path = ''/v1/chat/completions'' \<and> p = ''/v1/messages''
                   \<and> (\<exists>messages. dict_get req_body ''messages'' = Some (JList messages)
                         \<and> transform_request lib target_name messages
                             (optional_params_of req_body) = Inr b))
       \<and> (\<not> dict_has req_body ''max_tokens'' \<longrightarrow>
            dict_get (optional_params_of req_body) ''max_tokens'' =
              (case dict_get req_body ''max_completion_tokens'' of
                 Some v \<Rightarrow> Some v
               | None \<Rightarrow> Some (JInt 1024)))"
proof -
  have ne: "OPENAI_PROTOCOL \<noteq> ANTHROPIC_PROTOCOL"
    by (simp add: OPENAI_PROTOCOL_def ANTHROPIC_PROTOCOL_def)
  have bad: "convert_request_for_supplier lib request_protocol supplier_protocol path
               req_body target_name =
             Inl (AppExn (ServiceError (''Unsupported OpenAI endpoint for conversion: '' @ path)
                            ''unsupported_protocol_conversion''))"
    if "path \<noteq> ''/v1/chat/completions''"
    using assms ne that by (simp add: convert_request_for_supplier_def)
  have good: "path = ''/v1/chat/completions'' \<and> p = ''/v1/messages''
              \<and> (\<exists>messages. dict_get req_body ''messages'' = Some (JList messages)
                    \<and> transform_request lib target_name messages
                        (optional_params_of req_body) = Inr b)"
    if "convert_request_for_supplier lib request_protocol supplier_protocol path
          req_body target_name = Inr (p, b)" for p b
    using assms ne that
    by (auto simp: convert_request_for_supplier_def
        split: if_splits option.splits json.splits sum.splits)
  have mt: "dict_get (optional_params_of req_body) ''max_tokens'' =
              (case dict_get req_body ''max_completion_tokens'' of
                 Some v \<Rightarrow> Some v
               | None \<Rightarrow> Some (JInt 1024))"
    if "\<not> dict_has req_body ''max_tokens''"
    using that optional_params_max_tokens [of req_body] by (simp add: dict_has_def dict_get_def)
  from bad good mt show ?thesis
    by (auto simp: ServiceError_def)
qed

theorem openai_request_to_anthropic_supplier_witness:
  "convert_request_for_supplier example_litellm ''openai'' ''Anthropic'' ''/v1/chat/completions''
     hello_request ''claude-3'' =
     Inr (''/v1/messages'',
          JDict [(''model'', JStr ''claude-3''),
                 (''messages'', JList [JDict [(''role'', JStr ''user''), (''content'', JStr ''hello'')]]),
                 (''max_tokens'', JInt 1024)])
   \<and> dict_get (optional_params_of hello_request) ''max_tokens'' = Some (JInt 1024)"
proof -
  have l: "lower ''Anthropic'' = ''anthropic''" "lower ''openai'' = ''openai''" by code_simp+
  have s: "strip ''anthropic'' = ''anthropic''" "strip ''openai'' = ''openai''" by code_simp+
  have a: "normalize_protocol ''openai'' = Inr OPENAI_PROTOCOL"
    by (simp add: normalize_protocol_def l s OPENAI_PROTOCOL_def ANTHROPIC_PROTOCOL_def)
  have b: "normalize_protocol ''Anthropic'' = Inr ANTHROPIC_PROTOCOL"
    by (simp add: normalize_protocol_def l s OPENAI_PROTOCOL_def ANTHROPIC_PROTOCOL_def)
  have n: "\<not> dict_has hello_request ''max_tokens''"
    by (simp add: dict_has_def hello_request_def)
  have run: "convert_request_for_supplier example_litellm ''openai'' ''Anthropic''
               ''/v1/chat/completions'' hello_request ''claude-3'' =
             Inr (''/v1/messages'',
                  JDict [(''model'', JStr ''claude-3''),
                         (''messages'', JList [JDict [(''role'', JStr ''user''), (''content'', JStr ''hello'')]]),
                         (''max_tokens'', JInt 1024)])"
    by (simp add: convert_request_for_supplier_def a b OPENAI_PROTOCOL_def ANTHROPIC_PROTOCOL_def
        hello_request_def dict_get_def dict_has_def optional_params_of_def example_litellm_def)
  from openai_request_to_anthropic_supplier
         [OF a b, of "''/v1/chat/completions''" example_litellm hello_request "''claude-3''"] n
  have "dict_get (optional_params_of hello_request) ''max_tokens'' = Some (JInt 1024)"
    by (simp add: dict_get_def hello_request_def)
  with run show ?thesis by simp
qed

section \<open>Properties of the proxy service\<close>




section \<open>Properties of the stream conversion\<close>


























end
